theory Spec2Isabelle
  imports
    Complex_Main
    "HOL-Library.Sublist"
    "HOL-Library.List_Lexorder"
    "HOL-Library.Char_ord"
begin

section \<open>Strings\<close>

text \<open>
  A Python \<open>str\<close> is modelled by its UTF-8 encoding, a \<^typ>\<open>string\<close> of 8-bit characters.
  For ASCII text one \<^typ>\<open>char\<close> is one Python character.  The only non-ASCII character
  that \<open>app.py\<close> itself writes is the en dash U+2013, which is three bytes here.
  Substring search, suffix test, replacement and lexicographic comparison give the same
  answers on the encoding as on the code points, because UTF-8 is self-synchronising and
  order preserving.  \<open>len\<close> counts code points, so it is modelled by \<open>py_len\<close>, which
  skips the continuation bytes.  \<open>str.lower\<close> is modelled on the ASCII letters only;
  every other byte is left as it is.  \<open>str.upper\<close> follows Unicode (it maps, for
  instance, a sharp s to two letters) and is not modelled: the functions that call it
  take it as the parameter \<open>str_upper\<close>.
\<close>

definition en_dash :: string where
  "en_dash = [CHR 0xE2, CHR 0x80, CHR 0x93]"

definition tab :: string where
  "tab = [CHR 0x09]"

definition is_continuation :: "char \<Rightarrow> bool" where
  "is_continuation c \<longleftrightarrow> 128 \<le> (of_char c :: nat) \<and> (of_char c :: nat) < 192"

definition py_len :: "string \<Rightarrow> nat" where
  "py_len s = length (filter (\<lambda>c. \<not> is_continuation c) s)"

definition lower_char :: "char \<Rightarrow> char" where
  "lower_char c =
     (if CHR ''A'' \<le> c \<and> c \<le> CHR ''Z'' then char_of (of_char c + (32 :: nat)) else c)"

definition lower :: "string \<Rightarrow> string" where
  "lower s = map lower_char s"

text \<open>\<open>kw in s\<close>: \<open>kw\<close> occurs in \<open>s\<close> as a contiguous substring.\<close>

definition contains :: "string \<Rightarrow> string \<Rightarrow> bool" where
  "contains kw s = sublist kw s"

text \<open>\<open>s.endswith(suf)\<close>.\<close>

definition endswith :: "string \<Rightarrow> string \<Rightarrow> bool" where
  "endswith s suf = suffix suf s"

text \<open>
  \<open>s.replace(old, new)\<close> for a non-empty \<open>old\<close>: every occurrence of \<open>old\<close> is replaced,
  scanning from the left and continuing after each replaced occurrence.  (The program
  only calls it with \<open>old = "Civil "\<close>; for an empty \<open>old\<close> the model leaves \<open>s\<close> unchanged
  and is not Python's.)
\<close>

function replace :: "string \<Rightarrow> string \<Rightarrow> string \<Rightarrow> string" where
  "replace old new [] = []"
| "replace old new (c # cs) =
     (if old \<noteq> [] \<and> prefix old (c # cs)
      then new @ replace old new (drop (length old) (c # cs))
      else c # replace old new cs)"
  by pat_completeness auto
termination
  by (relation "measure (\<lambda>(old, new, s). length s)") (auto simp: Suc_le_eq)

text \<open>Python truthiness of an optional string: \<open>None\<close> and \<open>''\<close> are falsy.\<close>

fun truthy :: "string option \<Rightarrow> bool" where
  "truthy None = False"
| "truthy (Some s) = (s \<noteq> [])"

section \<open>The document model\<close>

text \<open>
  The part of python-docx that \<open>app.py\<close> touches.  A length is kept as the constructor
  that made it (\<open>Pt\<close>, \<open>Inches\<close>).  A run carries its text and the font attributes; an
  attribute that was never assigned is \<open>None\<close>, as in python-docx, where it means
  "inherited from the style".  A paragraph carries its runs, alignment, tab stops,
  space-after and line spacing.  A document is the list of body paragraphs, the four
  margins of its only section (\<open>None\<close> while the program has not assigned them) and the
  first paragraph of that section's footer.
\<close>

datatype length = Pt int | Inches real

datatype WD_ALIGN_PARAGRAPH = LEFT | CENTER | RIGHT | JUSTIFY

datatype WD_TAB_ALIGNMENT = TAB_LEFT | TAB_CENTER | TAB_RIGHT

record run =
  run_text :: string
  font_name :: "string option"
  font_size :: "length option"
  font_bold :: "bool option"
  font_italic :: "bool option"
  font_underline :: "bool option"

record docx_paragraph =
  runs :: "run list"
  alignment :: "WD_ALIGN_PARAGRAPH option"
  tab_stops :: "(length \<times> WD_TAB_ALIGNMENT) list"
  space_after :: "length option"
  line_spacing :: "real option"

record document =
  body :: "docx_paragraph list"
  top_margin :: "length option"
  bottom_margin :: "length option"
  left_margin :: "length option"
  right_margin :: "length option"
  footer :: docx_paragraph

text \<open>\<open>para.add_run(t)\<close> makes a run with text \<open>t\<close> and no attribute assigned.\<close>

definition new_run :: "string \<Rightarrow> run" where
  "new_run t = \<lparr>run_text = t, font_name = None, font_size = None, font_bold = None,
                font_italic = None, font_underline = None\<rparr>"

text \<open>
  The paragraph that \<open>doc.add_paragraph()\<close> makes: no run, nothing assigned.  Left as it
  is, it is the blank line the program uses as a separator.
\<close>

definition empty_paragraph :: docx_paragraph where
  "empty_paragraph = \<lparr>runs = [], alignment = None, tab_stops = [], space_after = None,
                       line_spacing = None\<rparr>"

definition add_run :: "docx_paragraph \<Rightarrow> run \<Rightarrow> docx_paragraph" where
  "add_run para r = para\<lparr>runs := runs para @ [r]\<rparr>"

definition add_tab_stop :: "docx_paragraph \<Rightarrow> length \<Rightarrow> WD_TAB_ALIGNMENT \<Rightarrow> docx_paragraph" where
  "add_tab_stop para pos al = para\<lparr>tab_stops := tab_stops para @ [(pos, al)]\<rparr>"

text \<open>
  In the source a paragraph is appended to the document empty and then filled through
  its handle; no other paragraph is appended meanwhile, so the model builds the
  paragraph first and appends it in its final state.
\<close>

definition add_paragraph :: "document \<Rightarrow> docx_paragraph \<Rightarrow> document" where
  "add_paragraph doc para = doc\<lparr>body := body doc @ [para]\<rparr>"

text \<open>\<open>Document()\<close>: the empty document of the default template.\<close>

definition Document :: document where
  "Document = \<lparr>body = [], top_margin = None, bottom_margin = None, left_margin = None,
                right_margin = None, footer = empty_paragraph\<rparr>"

section \<open>Section builders\<close>

definition add_title_section ::
  "(string \<Rightarrow> string) \<Rightarrow> document \<Rightarrow> string \<Rightarrow> string \<Rightarrow> document" where
  "add_title_section str_upper doc project_name ipo_number =
     (let run1 = (new_run (str_upper project_name))
            \<lparr>font_name := Some ''Calibri'', font_size := Some (Pt 12), font_bold := Some True\<rparr>;
          para1 = (add_run empty_paragraph run1)
            \<lparr>alignment := Some CENTER, space_after := Some (Pt 0), line_spacing := Some 1.0\<rparr>;
          doc = add_paragraph doc para1;
          run2 = (new_run (''INDIVIDUAL PROJECT ORDER NUMBER '' @ ipo_number))
            \<lparr>font_name := Some ''Calibri'', font_size := Some (Pt 10), font_bold := Some True\<rparr>;
          para2 = (add_run empty_paragraph run2)
            \<lparr>alignment := Some CENTER, space_after := Some (Pt 0), line_spacing := Some 1.0\<rparr>;
          doc = add_paragraph doc para2;
          doc = add_paragraph doc empty_paragraph;
          doc = add_paragraph doc empty_paragraph
      in doc)"

definition add_opening_paragraph :: "document \<Rightarrow> string \<Rightarrow> string \<Rightarrow> document" where
  "add_opening_paragraph doc client_name master_agreement_date =
     (let run1 = (new_run
            (''Describing a specific agreement between Kimley-Horn and Associates, Inc. '' @
             ''(the Consultant), and '' @ client_name @
             '' (the Client) in accordance with the terms of the '' @
             ''Master Agreement for Continuing Professional Services dated '' @
             master_agreement_date @ '', '' @
             ''which is incorporated herein by reference.''))
            \<lparr>font_name := Some ''Calibri'', font_size := Some (Pt 11)\<rparr>;
          para = (add_run empty_paragraph run1)
            \<lparr>alignment := Some JUSTIFY, space_after := Some (Pt 0), line_spacing := Some 1.0\<rparr>;
          doc = add_paragraph doc para;
          doc = add_paragraph doc empty_paragraph
      in doc)"

text \<open>
  In the branch for the second name line the source assigns the tab run to \<open>run\<close> and
  at once assigns the next run to the same variable, so the font assignments that follow
  reach the second run only.
\<close>

definition add_project_identification ::
  "document \<Rightarrow> string \<Rightarrow> string option \<Rightarrow> string \<Rightarrow> string \<Rightarrow> document" where
  "add_project_identification doc project_name project_name_line2 project_manager project_number =
     (let run0 = (new_run ''Identification of Project:'')
            \<lparr>font_name := Some ''Calibri'', font_size := Some (Pt 11), font_bold := Some True,
             font_underline := Some True\<rparr>;
          para = (add_run empty_paragraph run0)
            \<lparr>alignment := Some LEFT, space_after := Some (Pt 0), line_spacing := Some 1.0\<rparr>;
          doc = add_paragraph doc para;
          doc = add_paragraph doc empty_paragraph;
          para = add_tab_stop empty_paragraph (Inches 2.5) TAB_LEFT;
          para = add_run para ((new_run (''Project Name:'' @ tab))
            \<lparr>font_name := Some ''Calibri'', font_size := Some (Pt 11), font_bold := Some True\<rparr>);
          para = add_run para ((new_run project_name)
            \<lparr>font_name := Some ''Calibri'', font_size := Some (Pt 11), font_bold := Some True\<rparr>);
          para = para\<lparr>space_after := Some (Pt 0), line_spacing := Some 1.0\<rparr>;
          doc = add_paragraph doc para;
          doc = (case project_name_line2 of
                   None \<Rightarrow> doc
                 | Some line2 \<Rightarrow>
                     if line2 = [] then doc
                     else
                       (let para = add_tab_stop empty_paragraph (Inches 2.5) TAB_LEFT;
                            para = add_run para (new_run tab);
                            para = add_run para ((new_run line2)
                              \<lparr>font_name := Some ''Calibri'', font_size := Some (Pt 11),
                               font_bold := Some True\<rparr>);
                            para = para\<lparr>space_after := Some (Pt 0), line_spacing := Some 1.0\<rparr>
                        in add_paragraph doc para));
          para = add_tab_stop empty_paragraph (Inches 2.5) TAB_LEFT;
          para = add_run para ((new_run (''KH Project Manager:'' @ tab))
            \<lparr>font_name := Some ''Calibri'', font_size := Some (Pt 11), font_bold := Some True\<rparr>);
          para = add_run para ((new_run project_manager)
            \<lparr>font_name := Some ''Calibri'', font_size := Some (Pt 11), font_bold := Some True\<rparr>);
          para = para\<lparr>space_after := Some (Pt 0), line_spacing := Some 1.0\<rparr>;
          doc = add_paragraph doc para;
          para = add_tab_stop empty_paragraph (Inches 2.5) TAB_LEFT;
          para = add_run para ((new_run (''Project Number:'' @ tab))
            \<lparr>font_name := Some ''Calibri'', font_size := Some (Pt 11), font_bold := Some True\<rparr>);
          para = add_run para ((new_run project_number)
            \<lparr>font_name := Some ''Calibri'', font_size := Some (Pt 11), font_bold := Some True\<rparr>);
          para = para\<lparr>space_after := Some (Pt 0), line_spacing := Some 1.0\<rparr>;
          doc = add_paragraph doc para;
          doc = add_paragraph doc empty_paragraph
      in doc)"

definition add_section_with_heading :: "document \<Rightarrow> string \<Rightarrow> string list \<Rightarrow> document" where
  "add_section_with_heading doc heading_text content_paragraphs =
     (let run0 = (new_run heading_text)
            \<lparr>font_name := Some ''Calibri'', font_size := Some (Pt 11), font_bold := Some True,
             font_underline := Some True\<rparr>;
          para = (add_run empty_paragraph run0)
            \<lparr>alignment := Some LEFT, space_after := Some (Pt 0), line_spacing := Some 1.0\<rparr>;
          doc = add_paragraph doc para;
          doc = add_paragraph doc empty_paragraph
      in foldl (\<lambda>doc content.
            let run1 = (new_run content)
                  \<lparr>font_name := Some ''Calibri'', font_size := Some (Pt 11)\<rparr>;
                para = (add_run empty_paragraph run1)
                  \<lparr>alignment := Some JUSTIFY, space_after := Some (Pt 0),
                   line_spacing := Some 1.0\<rparr>;
                doc = add_paragraph doc para
            in add_paragraph doc empty_paragraph)
          doc content_paragraphs)"

section \<open>Dictionaries and the task catalog\<close>

text \<open>
  A Python \<open>dict\<close> keeps its entries in insertion order, one per key: an association
  list whose keys are distinct.  \<open>d[k]\<close> raises \<open>KeyError\<close> for a key that is not there.
  \<open>OSError\<close> stands for the errors of writing a file.
  \<open>sorted\<close> on a list of strings is \<^const>\<open>sort\<close> with the lexicographic order on
  \<^typ>\<open>string\<close>.
\<close>

type_synonym 'v dict = "(string \<times> 'v) list"

datatype error = KeyError string | OSError string

definition keys :: "'v dict \<Rightarrow> string list" where
  "keys d = map fst d"

definition getitem :: "'v dict \<Rightarrow> string \<Rightarrow> error + 'v" where
  "getitem d k = (case map_of d k of None \<Rightarrow> Inl (KeyError k) | Some v \<Rightarrow> Inr v)"

definition setitem :: "'v dict \<Rightarrow> string \<Rightarrow> 'v \<Rightarrow> 'v dict" where
  "setitem d k v =
     (if k \<in> set (keys d) then map (\<lambda>(k', v'). if k' = k then (k', v) else (k', v')) d
      else d @ [(k, v)])"

definition sorted_keys :: "'v dict \<Rightarrow> string list" where
  "sorted_keys d = sort (keys d)"

record task_definition =
  def_name :: string
  def_amount :: int
  def_type :: string

record selected_task =
  task_name :: string
  task_fee :: int
  task_type :: string

definition DEFAULT_FEES :: "task_definition dict" where
  "DEFAULT_FEES =
     [(''110'', \<lparr>def_name = ''Civil Engineering Design'', def_amount = 40000, def_type = ''Hourly, Not-to-Exceed''\<rparr>),
      (''120'', \<lparr>def_name = ''Civil Schematic Design'', def_amount = 35000, def_type = ''Hourly, Not-to-Exceed''\<rparr>),
      (''130'', \<lparr>def_name = ''Civil Design Development'', def_amount = 45000, def_type = ''Hourly, Not-to-Exceed''\<rparr>),
      (''140'', \<lparr>def_name = ''Civil Construction Documents'', def_amount = 50000, def_type = ''Hourly, Not-to-Exceed''\<rparr>),
      (''150'', \<lparr>def_name = ''Civil Permitting'', def_amount = 40000, def_type = ''Hourly, Not-to-Exceed''\<rparr>),
      (''210'', \<lparr>def_name = ''Meetings and Coordination'', def_amount = 20000, def_type = ''Hourly, Not-to-Exceed''\<rparr>)]"

definition TASK_DESCRIPTIONS :: "string list dict" where
  "TASK_DESCRIPTIONS =
     [(''110'',
       [''Kimley-Horn will prepare an onsite drainage report with supporting calculations showing the proposed development plan is consistent with the Southwest Florida Water Management District Basis of Review. This design will account for the stormwater design to support the development of the project site. The drainage report will include limited stormwater modeling to demonstrate that the Lot A site development will maintain the existing discharge rate and provide the required stormwater attenuation.'',
        ''The onsite drainage report will include calculations for 25-year 24-hour and 100-year 24-hour design storm conditions in accordance with Southwest Florida Water Management District Guidelines. A base stormwater design will be provided for the project site showing reasonable locations for stormwater conveyance features and stormwater management pond sizing.'']),
      (''120'',
       [''Kimley-Horn will prepare Civil Schematic Design deliverables in accordance with the Client's Design Project Deliverables Checklist. For the Civil Schematic Design task, the deliverables that Kimley-Horn will provide consist of Civil Site Plan, Establish Finish Floor Elevations, Utility Will Serve Letters and Points of Service, Utility Routing and Easement Requirements.'']),
      (''130'',
       [''Upon Client approval of the Schematic Design task, Kimley-Horn will prepare Design Development Plans of the civil design in accordance with the Client's Design Project Deliverables Checklist for Civil Design Development Deliverables. These documents will be approximately 50% complete and will include detail for City code review and preliminary pricing but will not include enough detail for construction bidding.'']),
      (''140'',
       [''Based on the approved Development Plan, Kimley-Horn will provide engineering and design services for the preparation of site construction plans for on-site improvements.'',
        ''Cover Sheet'',
        ''The cover sheet includes plan contents, vicinity map, legal description and team identification.'',
        ''Existing Conditions Plan/Demolition Plan'',
        ''This sheet will include and identify the required demolition of the existing items on the project site.'',
        ''Site Layout Plan'',
        ''This sheet will include building setback lines, property lines, outline of building footprint, parking areas, handicap access ramps, sidewalks, crosswalks, driveways, and traffic lanes.'',
        ''Grading and Drainage Plan'',
        ''This sheet will include existing and proposed spot elevations and contours, building finish floor elevations, parking area drainage patterns, and stormwater inlet and pipe locations and sizes.'',
        ''Utility Plan'',
        ''This sheet will show the location and size of all water, sanitary sewer and reclaimed water facilities required to serve the development.'',
        ''Erosion and Sediment Control Plan'',
        ''This sheet will include erosion and sediment control measures designed to be implemented during construction.'',
        ''Details'',
        ''Standard and modified typical construction details will be provided.'']),
      (''150'',
       [''Prepare and submit on the Client's behalf the following permitting packages for review/approval of construction documents, and attend meetings required to obtain the following Agency approvals:'',
        ''USF Site Development Permit'',
        ''Southwest Florida Water Management District Environmental Resource Permit '' @ en_dash @ '' Minor Modification'',
        ''City of Tampa Water Department Commitment / Construction Plan Approval'',
        ''Hillsborough County Environmental Protection Commission'',
        ''Kimley-Horn will coordinate with the City of Tampa Development Review and coordination with the Florida Department of Transportation and the Hillsborough County departments as needed to obtain the necessary regulatory and utility approval of the site plans and associated drainage facilities. We will assist the Client with meetings necessary to gain site plan approval.'',
        ''This scope does not anticipate a Geotechnical or Environmental Assessment Report, Survey, Topographic Survey, or Arborist Report be required for this permit application.'',
        ''It is assumed Client will provide the needed information regarding the development program and requirements. Kimley-Horn will work with the Owner and their team to integrate the necessary design requirements into the Civil design to support entitlement, platting, and development approvals.'',
        ''These permit applications will be submitted using the electronic permitting submittal system (web-based system) for the respective jurisdictions where applicable.'']),
      (''210'',
       [''Kimley-Horn will be available to provide miscellaneous project support at the direction of the Client. This task may include design meetings, additional permit support, permit research, or other miscellaneous tasks associated with the initial and future development of the project site. This task will also cover tasks such as design coordination meetings, scheduling, coordination with other client consultants, responses to additional rounds of agency comments.''])]"

section \<open>Scope of services\<close>

definition sub_section_keywords :: "string list" where
  "sub_section_keywords =
     [''cover sheet'', ''utility plan'', ''site layout'', ''site plan'',
      ''grading plan'', ''drainage plan'', ''paving'', ''erosion control'',
      ''detail'', ''existing conditions'', ''demolition'']"

text \<open>The value the source computes into its local variable \<open>is_subsection\<close>.\<close>

definition is_subsection :: "string \<Rightarrow> bool" where
  "is_subsection desc \<longleftrightarrow>
     py_len desc < 100 \<and>
     (\<exists>kw \<in> set sub_section_keywords. contains kw (lower desc)) \<and>
     \<not> endswith desc ''.''"

text \<open>The body of the inner loop, over the description fragments of one task.\<close>

definition add_description :: "document \<Rightarrow> string \<Rightarrow> document" where
  "add_description doc desc =
     (let run1 = (new_run desc)\<lparr>font_name := Some ''Calibri'', font_size := Some (Pt 11)\<rparr>;
          run1 = (if is_subsection desc then run1\<lparr>font_italic := Some True\<rparr> else run1);
          para = (add_run empty_paragraph run1)
            \<lparr>alignment := Some JUSTIFY, space_after := Some (Pt 0), line_spacing := Some 1.0\<rparr>;
          doc = add_paragraph doc para
      in if \<not> is_subsection desc then add_paragraph doc empty_paragraph else doc)"

text \<open>The text of a task heading, the f-string of the source.\<close>

definition task_heading_text :: "string \<Rightarrow> selected_task \<Rightarrow> string" where
  "task_heading_text task_num task =
     ''Task '' @ task_num @ '' '' @ en_dash @ '' '' @ replace ''Civil '' [] (task_name task)"

text \<open>
  The outer loop, over the sorted task codes.  A code with no entry in
  \<open>TASK_DESCRIPTIONS\<close> raises \<open>KeyError\<close>, which ends the loop and the function.
\<close>

fun add_tasks :: "document \<Rightarrow> selected_task dict \<Rightarrow> string list \<Rightarrow> error + document" where
  "add_tasks doc selected_tasks [] = Inr doc"
| "add_tasks doc selected_tasks (task_num # rest) =
     (case getitem selected_tasks task_num of
        Inl e \<Rightarrow> Inl e
      | Inr task \<Rightarrow>
          (case getitem TASK_DESCRIPTIONS task_num of
             Inl e \<Rightarrow> Inl e
           | Inr descriptions \<Rightarrow>
               (let run0 = (new_run (task_heading_text task_num task))
                      \<lparr>font_name := Some ''Calibri'', font_size := Some (Pt 11),
                       font_bold := Some True, font_underline := Some True\<rparr>;
                    para = (add_run empty_paragraph run0)
                      \<lparr>alignment := Some JUSTIFY, space_after := Some (Pt 0),
                       line_spacing := Some 1.0\<rparr>;
                    doc = add_paragraph doc para;
                    doc = add_paragraph doc empty_paragraph;
                    doc = foldl add_description doc descriptions
                in add_tasks doc selected_tasks rest)))"

definition add_scope_of_services :: "document \<Rightarrow> selected_task dict \<Rightarrow> error + document" where
  "add_scope_of_services doc selected_tasks =
     (let run0 = (new_run ''Specific scope of basic Services:'')
            \<lparr>font_name := Some ''Calibri'', font_size := Some (Pt 11), font_bold := Some True,
             font_underline := Some True\<rparr>;
          para = (add_run empty_paragraph run0)
            \<lparr>alignment := Some LEFT, space_after := Some (Pt 0), line_spacing := Some 1.0\<rparr>;
          doc = add_paragraph doc para;
          doc = add_paragraph doc empty_paragraph
      in add_tasks doc selected_tasks (sorted_keys selected_tasks))"

section \<open>Footer and assembly\<close>

text \<open>
  \<open>para.text = footer_text\<close> replaces the runs of the footer paragraph by one run with
  that text; \<open>para.runs[0]\<close> is that run.
\<close>

definition add_simple_footer :: "document \<Rightarrow> string \<Rightarrow> document" where
  "add_simple_footer doc footer_text =
     (let para = (footer doc)\<lparr>runs := [new_run footer_text]\<rparr>;
          run0 = (hd (runs para))\<lparr>font_name := Some ''Calibri'', font_size := Some (Pt 9)\<rparr>;
          para = para\<lparr>runs := run0 # tl (runs para), alignment := Some LEFT\<rparr>
      in doc\<lparr>footer := para\<rparr>)"

record project_info =
  pi_title :: string
  pi_ipo_number :: string
  pi_name :: string
  pi_name_line2 :: "string option"
  pi_project_manager :: string
  pi_project_number :: string
  pi_overall_understanding :: "string option"
  pi_lot_understanding :: "string option"

record client_info =
  ci_name :: string
  ci_master_agreement_date :: string

text \<open>
  \<open>doc.save(output_path)\<close> serialises the document and writes the file.  Neither is
  code of \<open>app.py\<close>, and the write can fail (a directory that does not exist, a disk
  that is full), so it is the parameter \<open>doc_save\<close>: given the document, the path and the
  state \<open>fs\<close> of the files, it returns \<open>None\<close> or the error it raised, and the files as
  they are afterwards.  The assembler returns the path, or the error that ended it,
  together with the files.
\<close>

definition generate_msa_ipo_document ::
  "(string \<Rightarrow> string) \<Rightarrow> (document \<Rightarrow> string \<Rightarrow> 'fs \<Rightarrow> error option \<times> 'fs) \<Rightarrow>
   project_info \<Rightarrow> client_info \<Rightarrow> selected_task dict \<Rightarrow> string \<Rightarrow> 'fs
     \<Rightarrow> (error + string) \<times> 'fs" where
  "generate_msa_ipo_document str_upper doc_save project_info client_info selected_tasks
       output_path fs =
     (let doc = Document;
          doc = doc\<lparr>top_margin := Some (Inches 1.0), bottom_margin := Some (Inches 1.0),
                    left_margin := Some (Inches 1.0), right_margin := Some (Inches 1.0)\<rparr>;
          doc = add_title_section str_upper doc (pi_title project_info)
                  (pi_ipo_number project_info);
          doc = add_opening_paragraph doc (ci_name client_info)
                  (ci_master_agreement_date client_info);
          doc = add_project_identification doc (pi_name project_info)
                  (pi_name_line2 project_info) (pi_project_manager project_info)
                  (pi_project_number project_info);
          doc = (case pi_overall_understanding project_info of
                   None \<Rightarrow> doc
                 | Some overall \<Rightarrow>
                     if overall \<noteq> []
                     then add_section_with_heading doc ''Overall Project Understanding:''
                            [overall]
                     else doc);
          doc = (case pi_lot_understanding project_info of
                   None \<Rightarrow> doc
                 | Some lot \<Rightarrow>
                     if lot \<noteq> []
                     then add_section_with_heading doc ''Lot Specific Project Understanding:''
                            [lot]
                     else doc)
      in case add_scope_of_services doc selected_tasks of
           Inl e \<Rightarrow> (Inl e, fs)
         | Inr doc \<Rightarrow>
             (let doc = add_simple_footer doc ''rev 07/2024''
              in case doc_save doc output_path fs of
                   (Some e, fs') \<Rightarrow> (Inl e, fs')
                 | (None, fs') \<Rightarrow> (Inr output_path, fs')))"

section \<open>Task selection\<close>

text \<open>
  The form's loop over the catalog.  The two widgets of a task are read through
  \<open>task_selected\<close> (the checkbox) and \<open>fee_amount\<close> (the number input, \<open>None\<close> while it is
  empty), both keyed by the task code.
\<close>

fun select_tasks ::
  "(string \<Rightarrow> bool) \<Rightarrow> (string \<Rightarrow> int option) \<Rightarrow> selected_task dict \<Rightarrow> string list
     \<Rightarrow> error + selected_task dict" where
  "select_tasks task_selected fee_amount selected_tasks [] = Inr selected_tasks"
| "select_tasks task_selected fee_amount selected_tasks (task_num # rest) =
     (case getitem DEFAULT_FEES task_num of
        Inl e \<Rightarrow> Inl e
      | Inr task \<Rightarrow>
          if task_selected task_num then
            (let final_fee = (case fee_amount task_num of
                                Some fee \<Rightarrow> fee
                              | None \<Rightarrow> def_amount task)
             in select_tasks task_selected fee_amount
                  (setitem selected_tasks task_num
                     \<lparr>task_name = def_name task, task_fee = final_fee,
                      task_type = def_type task\<rparr>)
                  rest)
          else select_tasks task_selected fee_amount selected_tasks rest)"

definition selected_tasks_of ::
  "(string \<Rightarrow> bool) \<Rightarrow> (string \<Rightarrow> int option) \<Rightarrow> error + selected_task dict" where
  "selected_tasks_of task_selected fee_amount =
     select_tasks task_selected fee_amount [] (sorted_keys DEFAULT_FEES)"

section \<open>Reference definitions for the properties\<close>

text \<open>
  The sub-heading rule in the words of the specification.  A keyword matches a fragment
  case-insensitively when some window of the fragment equals the keyword after both are
  lower-cased.  The rule: fewer than 100 characters, some caption keyword matches, and the
  fragment does not end with a period.
\<close>

definition ci_contains :: "string \<Rightarrow> string \<Rightarrow> bool" where
  "ci_contains kw s \<longleftrightarrow>
     (\<exists>i \<in> {0..length s}. lower (take (length kw) (drop i s)) = lower kw)"

definition sub_heading_rule :: "string \<Rightarrow> bool" where
  "sub_heading_rule desc \<longleftrightarrow>
     py_len desc < 100 \<and>
     (\<exists>kw \<in> set sub_section_keywords. ci_contains kw desc) \<and>
     \<not> (desc \<noteq> [] \<and> last desc = CHR ''.'')"

definition fragment_paragraph :: "bool \<Rightarrow> string \<Rightarrow> docx_paragraph" where
  "fragment_paragraph italic desc =
     \<lparr>runs = [\<lparr>run_text = desc, font_name = Some ''Calibri'', font_size = Some (Pt 11),
               font_bold = None, font_italic = (if italic then Some True else None),
               font_underline = None\<rparr>],
      alignment = Some JUSTIFY, tab_stops = [], space_after = Some (Pt 0),
      line_spacing = Some 1\<rparr>"

definition fragment_blocks :: "string \<Rightarrow> docx_paragraph list" where
  "fragment_blocks desc =
     (if sub_heading_rule desc then [fragment_paragraph True desc]
      else [fragment_paragraph False desc, empty_paragraph])"

text \<open>
  The paragraphs the builders make, written out: a bold underlined heading, the second
  project-name line, and the blocks of one task.  \<open>lookup\<close> reads the entry of a key that
  is known to be in the dictionary.
\<close>

definition heading_paragraph :: "WD_ALIGN_PARAGRAPH \<Rightarrow> string \<Rightarrow> docx_paragraph" where
  "heading_paragraph al t =
     \<lparr>runs = [\<lparr>run_text = t, font_name = Some ''Calibri'', font_size = Some (Pt 11),
               font_bold = Some True, font_italic = None, font_underline = Some True\<rparr>],
      alignment = Some al, tab_stops = [], space_after = Some (Pt 0), line_spacing = Some 1\<rparr>"

definition second_name_line :: "string \<Rightarrow> docx_paragraph" where
  "second_name_line line2 =
     \<lparr>runs = [\<lparr>run_text = tab, font_name = None, font_size = None, font_bold = None,
               font_italic = None, font_underline = None\<rparr>,
              \<lparr>run_text = line2, font_name = Some ''Calibri'', font_size = Some (Pt 11),
               font_bold = Some True, font_italic = None, font_underline = None\<rparr>],
      alignment = None, tab_stops = [(Inches 2.5, TAB_LEFT)], space_after = Some (Pt 0),
      line_spacing = Some 1\<rparr>"

definition lookup :: "'v dict \<Rightarrow> string \<Rightarrow> 'v" where
  "lookup d k = the (map_of d k)"

definition task_blocks :: "string \<Rightarrow> selected_task \<Rightarrow> string list \<Rightarrow> docx_paragraph list" where
  "task_blocks task_num task descriptions =
     [heading_paragraph JUSTIFY (task_heading_text task_num task), empty_paragraph] @
     concat (map fragment_blocks descriptions)"

definition title_paragraph :: "int \<Rightarrow> string \<Rightarrow> docx_paragraph" where
  "title_paragraph size_pt t =
     \<lparr>runs = [\<lparr>run_text = t, font_name = Some ''Calibri'', font_size = Some (Pt size_pt),
               font_bold = Some True, font_italic = None, font_underline = None\<rparr>],
      alignment = Some CENTER, tab_stops = [], space_after = Some (Pt 0),
      line_spacing = Some 1\<rparr>"

definition body_paragraph :: "string \<Rightarrow> docx_paragraph" where
  "body_paragraph t =
     \<lparr>runs = [\<lparr>run_text = t, font_name = Some ''Calibri'', font_size = Some (Pt 11),
               font_bold = None, font_italic = None, font_underline = None\<rparr>],
      alignment = Some JUSTIFY, tab_stops = [], space_after = Some (Pt 0),
      line_spacing = Some 1\<rparr>"

definition label_line :: "string \<Rightarrow> string \<Rightarrow> docx_paragraph" where
  "label_line label v =
     \<lparr>runs = [\<lparr>run_text = label @ tab, font_name = Some ''Calibri'',
               font_size = Some (Pt 11), font_bold = Some True, font_italic = None,
               font_underline = None\<rparr>,
              \<lparr>run_text = v, font_name = Some ''Calibri'', font_size = Some (Pt 11),
               font_bold = Some True, font_italic = None, font_underline = None\<rparr>],
      alignment = None, tab_stops = [(Inches 2.5, TAB_LEFT)], space_after = Some (Pt 0),
      line_spacing = Some 1\<rparr>"

text \<open>
  The blocks of each section, written out block by block.  \<open>title_blocks\<close> takes the
  title as it is printed, that is, already in upper case.
\<close>

definition title_blocks :: "string \<Rightarrow> string \<Rightarrow> docx_paragraph list" where
  "title_blocks printed_title ipo_number =
     [title_paragraph 12 printed_title,
      title_paragraph 10 (''INDIVIDUAL PROJECT ORDER NUMBER '' @ ipo_number),
      empty_paragraph, empty_paragraph]"

definition opening_blocks :: "string \<Rightarrow> string \<Rightarrow> docx_paragraph list" where
  "opening_blocks client_name master_agreement_date =
     [body_paragraph
        (''Describing a specific agreement between Kimley-Horn and Associates, Inc. (the Consultant), and '' @
         client_name @
         '' (the Client) in accordance with the terms of the Master Agreement for Continuing Professional Services dated '' @
         master_agreement_date @
         '', which is incorporated herein by reference.''),
      empty_paragraph]"

definition identification_blocks ::
  "string \<Rightarrow> string option \<Rightarrow> string \<Rightarrow> string \<Rightarrow> docx_paragraph list" where
  "identification_blocks project_name project_name_line2 project_manager project_number =
     [heading_paragraph LEFT ''Identification of Project:'', empty_paragraph,
      label_line ''Project Name:'' project_name] @
     (if truthy project_name_line2 then [second_name_line (the project_name_line2)] else []) @
     [label_line ''KH Project Manager:'' project_manager,
      label_line ''Project Number:'' project_number,
      empty_paragraph]"

definition section_blocks :: "string \<Rightarrow> string list \<Rightarrow> docx_paragraph list" where
  "section_blocks heading_text content_paragraphs =
     [heading_paragraph LEFT heading_text, empty_paragraph] @
     concat (map (\<lambda>content. [body_paragraph content, empty_paragraph]) content_paragraphs)"

definition scope_blocks :: "selected_task dict \<Rightarrow> docx_paragraph list" where
  "scope_blocks selected_tasks =
     [heading_paragraph LEFT ''Specific scope of basic Services:'', empty_paragraph] @
     concat (map (\<lambda>c. task_blocks c (lookup selected_tasks c) (lookup TASK_DESCRIPTIONS c))
               (sorted_keys selected_tasks))"

definition footer_paragraph :: docx_paragraph where
  "footer_paragraph =
     \<lparr>runs = [\<lparr>run_text = ''rev 07/2024'', font_name = Some ''Calibri'',
               font_size = Some (Pt 9), font_bold = None, font_italic = None,
               font_underline = None\<rparr>],
      alignment = Some LEFT, tab_stops = [], space_after = None, line_spacing = None\<rparr>"

text \<open>
  The document the assembler hands to \<open>doc.save\<close>, written out: the four margins, the
  sections in their order, the two understanding sections present exactly when their
  text is non-empty, and the footer.
\<close>

definition assembled_document ::
  "(string \<Rightarrow> string) \<Rightarrow> project_info \<Rightarrow> client_info \<Rightarrow> selected_task dict \<Rightarrow> document" where
  "assembled_document str_upper project_info client_info selected_tasks =
     \<lparr>body =
        title_blocks (str_upper (pi_title project_info)) (pi_ipo_number project_info) @
        opening_blocks (ci_name client_info) (ci_master_agreement_date client_info) @
        identification_blocks (pi_name project_info) (pi_name_line2 project_info)
          (pi_project_manager project_info) (pi_project_number project_info) @
        (if truthy (pi_overall_understanding project_info)
         then section_blocks ''Overall Project Understanding:''
                [the (pi_overall_understanding project_info)]
         else []) @
        (if truthy (pi_lot_understanding project_info)
         then section_blocks ''Lot Specific Project Understanding:''
                [the (pi_lot_understanding project_info)]
         else []) @
        scope_blocks selected_tasks,
      top_margin = Some (Inches 1), bottom_margin = Some (Inches 1),
      left_margin = Some (Inches 1), right_margin = Some (Inches 1),
      footer = footer_paragraph\<rparr>"

text \<open>
  python-docx raises \<open>ValueError\<close> for text that XML cannot hold; the builders above do not
  model that error.  \<open>xml_compatible\<close> is a sufficient condition for a text to be
  accepted: no control character other than tab, line feed and carriage return, and none
  of the bytes that start the encodings of the surrogates and of U+FFFE and U+FFFF.
  \<open>input_texts\<close> lists the texts of an input that reach a run.
\<close>

definition xml_char :: "char \<Rightarrow> bool" where
  "xml_char c \<longleftrightarrow>
     (32 \<le> (of_char c :: nat) \<and> (of_char c :: nat) < 127) \<or>
     c = CHR 0x09 \<or> c = CHR 0x0A \<or> c = CHR 0x0D \<or>
     (128 \<le> (of_char c :: nat) \<and> c \<noteq> CHR 0xED \<and> c \<noteq> CHR 0xEF)"

definition xml_compatible :: "string \<Rightarrow> bool" where
  "xml_compatible s = list_all xml_char s"

definition input_texts ::
  "(string \<Rightarrow> string) \<Rightarrow> project_info \<Rightarrow> client_info \<Rightarrow> selected_task dict \<Rightarrow> string list" where
  "input_texts str_upper project_info client_info selected_tasks =
     [str_upper (pi_title project_info), pi_ipo_number project_info, ci_name client_info,
      ci_master_agreement_date client_info, pi_name project_info,
      pi_project_manager project_info, pi_project_number project_info] @
     (case pi_name_line2 project_info of None \<Rightarrow> [] | Some t \<Rightarrow> [t]) @
     (case pi_overall_understanding project_info of None \<Rightarrow> [] | Some t \<Rightarrow> [t]) @
     (case pi_lot_understanding project_info of None \<Rightarrow> [] | Some t \<Rightarrow> [t]) @
     map (\<lambda>(task_num, task). task_name task) selected_tasks"

text \<open>
  The name with a leading \<open>"Civil "\<close> removed and nothing else, as the specification words
  the heading; and the record the form stores for a catalog task.
\<close>

definition strip_leading_civil :: "string \<Rightarrow> string" where
  "strip_leading_civil n = (if prefix ''Civil '' n then drop (length ''Civil '') n else n)"

definition catalog_task :: "string \<Rightarrow> int option \<Rightarrow> selected_task" where
  "catalog_task task_num fee =
     \<lparr>task_name = def_name (lookup DEFAULT_FEES task_num),
      task_fee = (case fee of None \<Rightarrow> def_amount (lookup DEFAULT_FEES task_num) | Some f \<Rightarrow> f),
      task_type = def_type (lookup DEFAULT_FEES task_num)\<rparr>"

text \<open>
  The formatting every body paragraph is meant to have: unless it is a blank line, its
  space-after is 0 pt and its line spacing is 1.0; each of its runs is set in Calibri, or
  is a run holding only a tab with nothing assigned.
\<close>

definition formatted :: "docx_paragraph \<Rightarrow> bool" where
  "formatted p \<longleftrightarrow>
     (p = empty_paragraph \<or> space_after p = Some (Pt 0) \<and> line_spacing p = Some 1) \<and>
     list_all (\<lambda>r. font_name r = Some ''Calibri'' \<or> r = new_run tab) (runs p)"

text \<open>The example of the specification's end-to-end property, used as a concrete input.\<close>

definition example_project_info :: project_info where
  "example_project_info =
     \<lparr>pi_title = ''Example Project'', pi_ipo_number = ''01'', pi_name = ''Example Project'',
      pi_name_line2 = None, pi_project_manager = ''J. Doe, PE'',
      pi_project_number = ''100000001'', pi_overall_understanding = Some ''Overall text.'',
      pi_lot_understanding = Some ''Lot text.''\<rparr>"

text \<open>
  Two concrete parameters for the examples: upper-casing of the ASCII letters, which is
  what \<open>str.upper\<close> does on ASCII text, and a save that succeeds and stores the document
  under its path.
\<close>

definition ascii_upper :: "string \<Rightarrow> string" where
  "ascii_upper s =
     map (\<lambda>c. if CHR ''a'' \<le> c \<and> c \<le> CHR ''z'' then char_of (of_char c - (32 :: nat)) else c) s"

definition save_to_map ::
  "document \<Rightarrow> string \<Rightarrow> (string \<rightharpoonup> document) \<Rightarrow> error option \<times> (string \<rightharpoonup> document)" where
  "save_to_map doc path fs = (None, fs(path \<mapsto> doc))"

definition example_client_info :: client_info where
  "example_client_info =
     \<lparr>ci_name = ''ACE Fletcher LLC'', ci_master_agreement_date = ''August 15, 2024''\<rparr>"

definition example_selected_tasks :: "selected_task dict" where
  "example_selected_tasks =
     [(''210'', \<lparr>task_name = ''Meetings and Coordination'', task_fee = 20000,
                task_type = ''Hourly, Not-to-Exceed''\<rparr>),
      (''110'', \<lparr>task_name = ''Civil Engineering Design'', task_fee = 40000,
                task_type = ''Hourly, Not-to-Exceed''\<rparr>)]"

section \<open>Lemmas\<close>

subsection \<open>The catalog\<close>

lemma keys_TASK_DESCRIPTIONS:
  "keys TASK_DESCRIPTIONS = [''110'', ''120'', ''130'', ''140'', ''150'', ''210'']"
  by (simp add: keys_def TASK_DESCRIPTIONS_def)

lemma keys_DEFAULT_FEES:
  "keys DEFAULT_FEES = [''110'', ''120'', ''130'', ''140'', ''150'', ''210'']"
  by (simp add: keys_def DEFAULT_FEES_def)

lemma catalog_keys_agree: "keys DEFAULT_FEES = keys TASK_DESCRIPTIONS"
  by (simp add: keys_DEFAULT_FEES keys_TASK_DESCRIPTIONS)

text \<open>The description fragments of the catalog are texts that XML can hold.\<close>

lemma catalog_texts_xml_compatible:
  "list_all (\<lambda>(task_num, descriptions). list_all xml_compatible descriptions)
     TASK_DESCRIPTIONS"
  by (simp add: TASK_DESCRIPTIONS_def xml_compatible_def xml_char_def en_dash_def)

lemma getitem_in: "k \<in> set (keys d) \<Longrightarrow> getitem d k = Inr (lookup d k)"
  by (auto simp: getitem_def keys_def lookup_def map_of_eq_None_iff split: option.split)

lemma getitem_notin: "k \<notin> set (keys d) \<Longrightarrow> getitem d k = Inl (KeyError k)"
  by (auto simp: getitem_def keys_def map_of_eq_None_iff split: option.split)

lemma sorted_keys_set: "set (sorted_keys d) = set (keys d)"
  by (simp add: sorted_keys_def)

subsection \<open>Strings\<close>

lemma py_len_ascii:
  assumes "list_all (\<lambda>c. (of_char c :: nat) < 128) s"
  shows "py_len s = length s"
  using assms by (induction s) (simp_all add: py_len_def is_continuation_def)

subsection \<open>The sub-heading rule\<close>

lemma sublist_map_iff:
  "sublist kw (map f s) \<longleftrightarrow> (\<exists>i \<in> {0..length s}. map f (take (length kw) (drop i s)) = kw)"
proof
  assume "sublist kw (map f s)"
  then obtain ps ss where eq: "map f s = ps @ kw @ ss"
    by (auto simp: sublist_def)
  have "length ps \<le> length s"
    using arg_cong [OF eq, of length] by simp
  moreover have "map f (take (length kw) (drop (length ps) s)) = kw"
    by (simp add: take_map [symmetric] drop_map [symmetric] eq)
  ultimately show "\<exists>i \<in> {0..length s}. map f (take (length kw) (drop i s)) = kw"
    by auto
next
  assume "\<exists>i \<in> {0..length s}. map f (take (length kw) (drop i s)) = kw"
  then obtain i where i: "map f (take (length kw) (drop i s)) = kw"
    by blast
  have "sublist (take (length kw) (drop i (map f s))) (map f s)"
    by (meson sublist_take sublist_drop sublist_order.order_trans)
  then show "sublist kw (map f s)"
    using i by (simp add: take_map drop_map)
qed

lemma lower_keywords: "kw \<in> set sub_section_keywords \<Longrightarrow> lower kw = kw"
  unfolding sub_section_keywords_def by (auto simp: lower_def lower_char_def)

lemma endswith_period: "endswith desc ''.'' \<longleftrightarrow> desc \<noteq> [] \<and> last desc = CHR ''.''"
  by (cases desc rule: rev_cases) (simp_all add: endswith_def suffix_def)

lemma contains_lower_ci:
  assumes "lower kw = kw"
  shows "contains kw (lower desc) \<longleftrightarrow> ci_contains kw desc"
  unfolding contains_def ci_contains_def assms
  unfolding lower_def by (rule sublist_map_iff)

lemma is_subsection_rule: "is_subsection desc \<longleftrightarrow> sub_heading_rule desc"
  unfolding is_subsection_def sub_heading_rule_def endswith_period
  using contains_lower_ci [OF lower_keywords] by blast

text \<open>
  One caption of the catalog is not recognised by the rule: \<open>"erosion control"\<close> is not a
  substring of it, so it is rendered as body text.
\<close>

lemma erosion_caption_is_body_text:
  "\<not> is_subsection ''Erosion and Sediment Control Plan''"
  by code_simp

lemma add_description_body:
  "add_description doc desc = doc\<lparr>body := body doc @ fragment_blocks desc\<rparr>"
  by (simp add: add_description_def fragment_blocks_def fragment_paragraph_def Let_def
      add_paragraph_def add_run_def empty_paragraph_def new_run_def is_subsection_rule)

lemma foldl_add_description:
  "foldl add_description doc ds = doc\<lparr>body := body doc @ concat (map fragment_blocks ds)\<rparr>"
  by (induction ds arbitrary: doc) (simp_all add: add_description_body)

subsection \<open>Every builder appends to the body and leaves the rest alone\<close>

lemma add_title_section_app:
  "add_title_section str_upper doc t n =
     doc\<lparr>body := body doc @ title_blocks (str_upper t) n\<rparr>"
  by (simp add: title_blocks_def title_paragraph_def add_title_section_def Let_def
      add_paragraph_def add_run_def new_run_def empty_paragraph_def)

lemma add_opening_paragraph_app:
  "add_opening_paragraph doc c m = doc\<lparr>body := body doc @ opening_blocks c m\<rparr>"
  by (simp add: opening_blocks_def body_paragraph_def add_opening_paragraph_def Let_def
      add_paragraph_def add_run_def new_run_def empty_paragraph_def)

lemma add_project_identification_app:
  "add_project_identification doc pn l2 pm num =
     doc\<lparr>body := body doc @ identification_blocks pn l2 pm num\<rparr>"
  by (cases l2)
    (simp_all add: identification_blocks_def heading_paragraph_def label_line_def
      second_name_line_def add_project_identification_def Let_def add_paragraph_def
      add_run_def add_tab_stop_def new_run_def empty_paragraph_def)

lemma content_loop_app:
  "foldl (\<lambda>doc content. doc\<lparr>body := body doc @ g content\<rparr>) doc cs =
     doc\<lparr>body := body doc @ concat (map g cs)\<rparr>"
  by (induction cs arbitrary: doc) simp_all

lemma add_section_with_heading_app:
  "add_section_with_heading doc h cs = doc\<lparr>body := body doc @ section_blocks h cs\<rparr>"
  by (simp add: section_blocks_def heading_paragraph_def body_paragraph_def
      add_section_with_heading_def Let_def add_paragraph_def content_loop_app add_run_def
      new_run_def empty_paragraph_def)

subsection \<open>The task loop\<close>

lemma add_tasks_step:
  assumes "k \<in> set (keys st)" and "k \<in> set (keys TASK_DESCRIPTIONS)"
  shows "add_tasks doc st (k # ks) =
           add_tasks (doc\<lparr>body := body doc @
                        task_blocks k (lookup st k) (lookup TASK_DESCRIPTIONS k)\<rparr>) st ks"
  by (simp add: getitem_in [OF assms(1)] getitem_in [OF assms(2)] Let_def add_paragraph_def
      foldl_add_description task_blocks_def heading_paragraph_def add_run_def
      empty_paragraph_def new_run_def)

lemma add_tasks_ok:
  assumes "set ks \<subseteq> set (keys st)" and "set ks \<subseteq> set (keys TASK_DESCRIPTIONS)"
  shows "add_tasks doc st ks =
           Inr (doc\<lparr>body := body doc @
                  concat (map (\<lambda>c. task_blocks c (lookup st c) (lookup TASK_DESCRIPTIONS c))
                            ks)\<rparr>)"
  using assms
proof (induction ks arbitrary: doc)
  case Nil
  then show ?case by simp
next
  case (Cons k ks)
  then show ?case by (simp add: add_tasks_step del: add_tasks.simps)
qed

lemma add_tasks_fail:
  assumes "set ks \<subseteq> set (keys st)"
    and "List.find (\<lambda>k. k \<notin> set (keys TASK_DESCRIPTIONS)) ks = Some c"
  shows "add_tasks doc st ks = Inl (KeyError c)"
  using assms
proof (induction ks arbitrary: doc)
  case Nil
  then show ?case by simp
next
  case (Cons k ks)
  show ?case
  proof (cases "k \<in> set (keys TASK_DESCRIPTIONS)")
    case True
    with Cons show ?thesis by (simp add: add_tasks_step del: add_tasks.simps)
  next
    case False
    with Cons.prems show ?thesis
      by (simp add: getitem_in getitem_notin)
  qed
qed

lemma add_scope_of_services_ok:
  assumes "set (keys st) \<subseteq> set (keys TASK_DESCRIPTIONS)"
  shows "add_scope_of_services doc st =
           Inr (doc\<lparr>body := body doc @
                  [heading_paragraph LEFT ''Specific scope of basic Services:'',
                   empty_paragraph] @
                  concat (map (\<lambda>c. task_blocks c (lookup st c) (lookup TASK_DESCRIPTIONS c))
                            (sorted_keys st))\<rparr>)"
  using assms
  by (simp add: add_scope_of_services_def Let_def add_tasks_ok sorted_keys_set
      add_paragraph_def heading_paragraph_def add_run_def empty_paragraph_def new_run_def)

lemma add_scope_of_services_fail:
  assumes "List.find (\<lambda>k. k \<notin> set (keys TASK_DESCRIPTIONS)) (sorted_keys st) = Some c"
  shows "add_scope_of_services doc st = Inl (KeyError c)"
  using assms
  by (simp add: add_scope_of_services_def Let_def add_tasks_fail sorted_keys_set)

lemma add_scope_of_services_app:
  assumes "set (keys st) \<subseteq> set (keys TASK_DESCRIPTIONS)"
  shows "add_scope_of_services doc st = Inr (doc\<lparr>body := body doc @ scope_blocks st\<rparr>)"
  by (simp add: scope_blocks_def add_scope_of_services_ok [OF assms])

lemma find_absent:
  "\<not> set ks \<subseteq> S \<Longrightarrow> \<exists>c. List.find (\<lambda>k. k \<notin> S) ks = Some c"
  by (cases "List.find (\<lambda>k. k \<notin> S) ks") (auto simp: find_None_iff)










subsection \<open>Task selection\<close>

lemma map_of_overwrite:
  "map_of (map (\<lambda>(k', v'). if k' = k then (k', v) else (k', v')) d) x =
     (if x = k then (if k \<in> set (map fst d) then Some v else None) else map_of d x)"
proof (induction d)
  case Nil
  then show ?case by simp
next
  case (Cons a d)
  obtain ka va where a: "a = (ka, va)" by (cases a)
  from Cons show ?case by (cases "x = k") (simp_all add: a)
qed

lemma map_of_setitem: "map_of (setitem d k v) = (map_of d)(k \<mapsto> v)"
proof (cases "k \<in> set (keys d)")
  case True
  then show ?thesis
    by (simp add: setitem_def keys_def fun_eq_iff map_of_overwrite)
next
  case False
  then have "map_of d k = None"
    by (simp add: keys_def map_of_eq_None_iff)
  with False show ?thesis
    by (auto simp: setitem_def fun_eq_iff map_add_def split: option.split)
qed

lemma select_tasks_map:
  assumes "set ks \<subseteq> set (keys DEFAULT_FEES)"
  shows "\<exists>sel. select_tasks ts fa acc ks = Inr sel \<and>
           (\<forall>k. map_of sel k =
              (if k \<in> set ks \<and> ts k then Some (catalog_task k (fa k)) else map_of acc k))"
  using assms
proof (induction ks arbitrary: acc)
  case Nil
  then show ?case by simp
next
  case (Cons k ks)
  then have k: "getitem DEFAULT_FEES k = Inr (lookup DEFAULT_FEES k)"
    by (simp add: getitem_in)
  from Cons.prems have ks: "set ks \<subseteq> set (keys DEFAULT_FEES)"
    by simp
  show ?case
  proof (cases "ts k")
    case True
    let ?acc = "setitem acc k (catalog_task k (fa k))"
    from True have step: "select_tasks ts fa acc (k # ks) = select_tasks ts fa ?acc ks"
      by (simp add: k catalog_task_def Let_def)
    from Cons.IH [OF ks, of ?acc] show ?thesis
      unfolding step by (auto simp: map_of_setitem True)
  next
    case False
    then have step: "select_tasks ts fa acc (k # ks) = select_tasks ts fa acc ks"
      by (simp add: k)
    from Cons.IH [OF ks, of acc] show ?thesis
      unfolding step using False by auto
  qed
qed

lemma selected_tasks_of_entry:
  assumes "task_num \<in> set (keys DEFAULT_FEES)" and "ts task_num"
  shows "\<exists>sel. selected_tasks_of ts fa = Inr sel \<and>
           getitem sel task_num = Inr (catalog_task task_num (fa task_num))"
proof -
  obtain sel where sel: "selected_tasks_of ts fa = Inr sel"
    and m: "\<And>k. map_of sel k =
              (if k \<in> set (sorted_keys DEFAULT_FEES) \<and> ts k then Some (catalog_task k (fa k))
               else map_of [] k)"
    unfolding selected_tasks_of_def
    using select_tasks_map [of "sorted_keys DEFAULT_FEES" ts fa "[]"]
    by (auto simp: sorted_keys_set)
  have "getitem sel task_num = Inr (catalog_task task_num (fa task_num))"
    using assms by (simp add: getitem_def m sorted_keys_set)
  with sel show ?thesis by blast
qed

text \<open>The form only ever selects catalog codes, so its selections cannot raise the error.\<close>

lemma selected_tasks_in_catalog:
  assumes "selected_tasks_of ts fa = Inr sel"
  shows "set (keys sel) \<subseteq> set (keys TASK_DESCRIPTIONS)"
proof
  fix k
  assume "k \<in> set (keys sel)"
  then have k: "map_of sel k \<noteq> None"
    by (simp add: keys_def map_of_eq_None_iff)
  obtain sel' where "selected_tasks_of ts fa = Inr sel'"
    and m: "\<And>k. map_of sel' k =
              (if k \<in> set (sorted_keys DEFAULT_FEES) \<and> ts k then Some (catalog_task k (fa k))
               else map_of [] k)"
    unfolding selected_tasks_of_def
    using select_tasks_map [of "sorted_keys DEFAULT_FEES" ts fa "[]"]
    by (auto simp: sorted_keys_set)
  with assms have "sel' = sel" by simp
  with k m [of k] have "k \<in> set (sorted_keys DEFAULT_FEES)"
    by (auto split: if_splits)
  then show "k \<in> set (keys TASK_DESCRIPTIONS)"
    by (simp add: sorted_keys_set catalog_keys_agree)
qed

subsection \<open>Replacement\<close>



text \<open>In every catalog name \<open>"Civil "\<close> occurs at most as the leading prefix.\<close>

lemma catalog_names_leading:
  "list_all (\<lambda>(k, t). replace ''Civil '' [] (def_name t) = strip_leading_civil (def_name t))
     DEFAULT_FEES"
  by (simp add: DEFAULT_FEES_def strip_leading_civil_def)

subsection \<open>Assembly\<close>

lemma generate_ok:
  assumes "set (keys st) \<subseteq> set (keys TASK_DESCRIPTIONS)"
  shows "generate_msa_ipo_document str_upper doc_save pinfo cinfo st path fs =
           (case doc_save (assembled_document str_upper pinfo cinfo st) path fs of
              (Some e, fs') \<Rightarrow> (Inl e, fs')
            | (None, fs') \<Rightarrow> (Inr path, fs'))"
proof -
  have "add_simple_footer d ''rev 07/2024'' = d\<lparr>footer := footer_paragraph\<rparr>"
    if "footer d = empty_paragraph" for d
    using that by (simp add: add_simple_footer_def footer_paragraph_def new_run_def
        empty_paragraph_def)
  note foot = this
  show ?thesis
    by (cases "pi_overall_understanding pinfo"; cases "pi_lot_understanding pinfo")
      (simp_all add: generate_msa_ipo_document_def Let_def add_title_section_app
        add_opening_paragraph_app add_project_identification_app
        add_section_with_heading_app add_scope_of_services_app [OF assms] foot
        assembled_document_def Document_def)
qed

subsection \<open>Formatting of the body\<close>

lemma formatted_empty: "formatted empty_paragraph"
  by (simp add: formatted_def empty_paragraph_def)

lemma formatted_title: "list_all formatted (title_blocks t n)"
  by (simp add: title_blocks_def title_paragraph_def formatted_def empty_paragraph_def)

lemma formatted_opening: "list_all formatted (opening_blocks c m)"
  by (simp add: opening_blocks_def body_paragraph_def formatted_def empty_paragraph_def)

lemma formatted_identification: "list_all formatted (identification_blocks pn l2 pm num)"
  by (simp add: identification_blocks_def heading_paragraph_def label_line_def
      second_name_line_def formatted_def new_run_def empty_paragraph_def)

lemma formatted_section: "list_all formatted (section_blocks h cs)"
  by (simp add: section_blocks_def heading_paragraph_def body_paragraph_def formatted_def
      empty_paragraph_def list_all_iff)

lemma formatted_fragment: "list_all formatted (fragment_blocks desc)"
  by (simp add: fragment_blocks_def fragment_paragraph_def formatted_def empty_paragraph_def)

lemma formatted_task: "list_all formatted (task_blocks c t ds)"
  using formatted_fragment
  by (auto simp: task_blocks_def heading_paragraph_def formatted_def empty_paragraph_def
      list_all_iff)

lemma formatted_scope: "list_all formatted (scope_blocks st)"
  using formatted_task
  by (auto simp: scope_blocks_def list_all_iff heading_paragraph_def formatted_def
      empty_paragraph_def)

lemma generated_document_formatted:
  "list_all formatted (body (assembled_document str_upper pinfo cinfo st))"
  "list_all (\<lambda>r. font_name r = Some ''Calibri'')
     (runs (footer (assembled_document str_upper pinfo cinfo st)))"
  by (simp_all add: assembled_document_def formatted_title formatted_opening
      formatted_identification formatted_section formatted_scope footer_paragraph_def)

section \<open>The claims\<close>

text \<open>
  C1.  Every description fragment of a task is rendered by exactly the blocks of
  \<open>fragment_blocks\<close>: when the fragment has fewer than 100 characters, contains a caption
  keyword case-insensitively and does not end with a period, one italic justified
  paragraph and no blank line after it; otherwise one justified paragraph that is not
  italic, followed by exactly one blank line.
\<close>

theorem C1_fragment_rendering:
  "body (foldl add_description doc descriptions) =
     body doc @ concat (map fragment_blocks descriptions)"
  by (simp add: foldl_add_description)

theorem C1_fragment_rendering_witness:
  "body (foldl add_description Document
           [''Cover Sheet'', ''The cover sheet includes plan contents.'']) =
     [fragment_paragraph True ''Cover Sheet'',
      fragment_paragraph False ''The cover sheet includes plan contents.'',
      empty_paragraph]"
proof -
  have "sub_heading_rule ''Cover Sheet''"
    by code_simp
  moreover have "\<not> sub_heading_rule ''The cover sheet includes plan contents.''"
    by code_simp
  ultimately show ?thesis
    using C1_fragment_rendering
      [of Document "[''Cover Sheet'', ''The cover sheet includes plan contents.'']"]
    by (simp add: fragment_blocks_def Document_def)
qed



text \<open>
  C3.  When some selected task code is not in the catalog, assembly ends with the
  \<open>KeyError\<close> of the first such code in sorted order (the condition the specification
  calls ConfigurationError): no path is returned and the files are as they were, so
  nothing has been saved, whatever \<open>doc.save\<close> would have done.
\<close>

theorem C3_unknown_task_rejected:
  assumes "\<not> set (keys st) \<subseteq> set (keys TASK_DESCRIPTIONS)"
  shows "\<exists>c. List.find (\<lambda>k. k \<notin> set (keys TASK_DESCRIPTIONS)) (sorted_keys st) = Some c \<and>
             c \<in> set (keys st) \<and> c \<notin> set (keys TASK_DESCRIPTIONS) \<and>
             generate_msa_ipo_document str_upper doc_save pinfo cinfo st path fs =
               (Inl (KeyError c), fs)"
proof -
  from assms obtain c
    where c: "List.find (\<lambda>k. k \<notin> set (keys TASK_DESCRIPTIONS)) (sorted_keys st) = Some c"
    using find_absent [of "sorted_keys st" "set (keys TASK_DESCRIPTIONS)"]
    by (auto simp: sorted_keys_set)
  then have "c \<in> set (keys st)" and "c \<notin> set (keys TASK_DESCRIPTIONS)"
    by (auto simp: find_Some_iff sorted_keys_set [symmetric])
  moreover have "generate_msa_ipo_document str_upper doc_save pinfo cinfo st path fs =
      (Inl (KeyError c), fs)"
    by (simp add: generate_msa_ipo_document_def Let_def add_scope_of_services_fail [OF c])
  ultimately show ?thesis
    using c by blast
qed

theorem C3_unknown_task_rejected_witness:
  "\<not> set (keys [(''999'', catalog_task ''110'' None)]) \<subseteq> set (keys TASK_DESCRIPTIONS) \<and>
   generate_msa_ipo_document ascii_upper save_to_map example_project_info example_client_info
       [(''999'', catalog_task ''110'' None)] ''/tmp/temp_ipo.docx'' Map.empty =
     (Inl (KeyError ''999''), Map.empty)"
proof -
  have h: "\<not> set (keys [(''999'', catalog_task ''110'' None)]) \<subseteq> set (keys TASK_DESCRIPTIONS)"
    unfolding keys_TASK_DESCRIPTIONS by (simp add: keys_def)
  have "List.find (\<lambda>k. k \<notin> set (keys TASK_DESCRIPTIONS))
          (sorted_keys [(''999'', catalog_task ''110'' None)]) = Some ''999''"
    unfolding keys_TASK_DESCRIPTIONS by (simp add: sorted_keys_def keys_def)
  then show ?thesis
    using h C3_unknown_task_rejected [OF h, of ascii_upper save_to_map example_project_info
        example_client_info "''/tmp/temp_ipo.docx''" Map.empty]
    by simp
qed

text \<open>
  C4.  For every catalog task whose checkbox is ticked, the record stored for it has the
  catalog default amount as its fee when the fee input is empty (\<open>None\<close>), and the entered
  value when there is one.
\<close>

theorem C4_fee_defaulting:
  assumes "task_num \<in> set (keys DEFAULT_FEES)" and "task_selected task_num"
  shows "\<exists>sel task. selected_tasks_of task_selected fee_amount = Inr sel \<and>
           getitem sel task_num = Inr task \<and>
           task_fee task =
             (case fee_amount task_num of
                None \<Rightarrow> def_amount (lookup DEFAULT_FEES task_num)
              | Some fee \<Rightarrow> fee)"
  using selected_tasks_of_entry [of task_num task_selected fee_amount] assms
  by (auto simp: catalog_task_def)

theorem C4_fee_defaulting_witness:
  "''210'' \<in> set (keys DEFAULT_FEES) \<and>
   (\<exists>sel task. selected_tasks_of ((=) ''210'') Map.empty = Inr sel \<and>
      getitem sel ''210'' = Inr task \<and> task_fee task = 20000)"
proof -
  have h: "''210'' \<in> set (keys DEFAULT_FEES)"
    by (simp add: keys_DEFAULT_FEES)
  have "def_amount (lookup DEFAULT_FEES ''210'') = 20000"
    by (simp add: lookup_def DEFAULT_FEES_def)
  then show ?thesis
    using h C4_fee_defaulting [OF h, of "(=) ''210''" Map.empty]
    by simp
qed

text \<open>
  C5, as amended.  The claim that an entered fee of 0 is replaced by the catalog default
  fails: the test is \<open>is not None\<close>, not truthiness.  What holds: an entered fee of 0 is
  kept, so the stored fee is 0, while an empty fee input gives the catalog default.
\<close>

theorem C5_zero_fee_kept:
  assumes "task_num \<in> set (keys DEFAULT_FEES)" and "task_selected task_num"
    and "fee_amount task_num = Some 0" and "fee_amount' task_num = None"
  shows "\<exists>sel task sel' task'.
           selected_tasks_of task_selected fee_amount = Inr sel \<and>
           getitem sel task_num = Inr task \<and> task_fee task = 0 \<and>
           selected_tasks_of task_selected fee_amount' = Inr sel' \<and>
           getitem sel' task_num = Inr task' \<and>
           task_fee task' = def_amount (lookup DEFAULT_FEES task_num)"
  using selected_tasks_of_entry [of task_num task_selected fee_amount]
    selected_tasks_of_entry [of task_num task_selected fee_amount'] assms
  by (auto simp: catalog_task_def)

theorem C5_zero_fee_kept_witness:
  "''210'' \<in> set (keys DEFAULT_FEES) \<and>
   (\<exists>sel task sel' task'.
      selected_tasks_of ((=) ''210'') [''210'' \<mapsto> 0] = Inr sel \<and>
      getitem sel ''210'' = Inr task \<and> task_fee task = 0 \<and>
      selected_tasks_of ((=) ''210'') Map.empty = Inr sel' \<and>
      getitem sel' ''210'' = Inr task' \<and> task_fee task' = 20000)"
proof -
  have h: "''210'' \<in> set (keys DEFAULT_FEES)"
    by (simp add: keys_DEFAULT_FEES)
  have "def_amount (lookup DEFAULT_FEES ''210'') = 20000"
    by (simp add: lookup_def DEFAULT_FEES_def)
  then show ?thesis
    using h C5_zero_fee_kept [OF h, of "(=) ''210''" "[''210'' \<mapsto> 0]" Map.empty]
    by simp
qed

theorem C5_zero_fee_counterexample:
  "selected_tasks_of ((=) ''210'') [''210'' \<mapsto> 0] =
     Inr [(''210'', \<lparr>task_name = ''Meetings and Coordination'', task_fee = 0,
                     task_type = ''Hourly, Not-to-Exceed''\<rparr>)] \<and>
   selected_tasks_of ((=) ''210'') Map.empty =
     Inr [(''210'', \<lparr>task_name = ''Meetings and Coordination'', task_fee = 20000,
                     task_type = ''Hourly, Not-to-Exceed''\<rparr>)] \<and>
   selected_tasks_of ((=) ''210'') [''210'' \<mapsto> 0] \<noteq> selected_tasks_of ((=) ''210'') Map.empty"
  by (simp add: selected_tasks_of_def sorted_keys_def keys_DEFAULT_FEES getitem_def
      setitem_def DEFAULT_FEES_def keys_def)






text \<open>
  C8.  For an input whose selected codes are all in the catalog and whose texts XML can
  hold, the assembler hands to \<open>doc.save\<close> exactly the document \<open>assembled_document\<close>: the
  four margins are 1 inch and the body is, in this order, the title block, the opening
  clause, the project identification, the overall-understanding section if and only if
  that text is non-empty, the lot-understanding section if and only if that text is
  non-empty, and the scope of services; the footer is set.  It returns the path when the
  save succeeds and the error of the save otherwise.
\<close>

theorem C8_assembly_order:
  assumes "set (keys st) \<subseteq> set (keys TASK_DESCRIPTIONS)"
    and "list_all xml_compatible (input_texts str_upper pinfo cinfo st)"
  shows "generate_msa_ipo_document str_upper doc_save pinfo cinfo st path fs =
           (case doc_save (assembled_document str_upper pinfo cinfo st) path fs of
              (Some e, fs') \<Rightarrow> (Inl e, fs')
            | (None, fs') \<Rightarrow> (Inr path, fs'))"
  using assms(1) by (rule generate_ok)

theorem C8_assembly_order_witness:
  "set (keys example_selected_tasks) \<subseteq> set (keys TASK_DESCRIPTIONS) \<and>
   list_all xml_compatible
     (input_texts ascii_upper example_project_info example_client_info
        example_selected_tasks) \<and>
   generate_msa_ipo_document ascii_upper save_to_map example_project_info example_client_info
       example_selected_tasks ''/tmp/temp_ipo.docx'' Map.empty =
     (Inr ''/tmp/temp_ipo.docx'',
      [''/tmp/temp_ipo.docx'' \<mapsto>
        \<lparr>body =
           title_blocks ''EXAMPLE PROJECT'' ''01'' @
           opening_blocks ''ACE Fletcher LLC'' ''August 15, 2024'' @
           identification_blocks ''Example Project'' None ''J. Doe, PE'' ''100000001'' @
           section_blocks ''Overall Project Understanding:'' [''Overall text.''] @
           section_blocks ''Lot Specific Project Understanding:'' [''Lot text.''] @
           scope_blocks example_selected_tasks,
         top_margin = Some (Inches 1), bottom_margin = Some (Inches 1),
         left_margin = Some (Inches 1), right_margin = Some (Inches 1),
         footer = footer_paragraph\<rparr>]) \<and>
   map (\<lambda>p. concat (map run_text (runs p)))
     (title_blocks ''EXAMPLE PROJECT'' ''01'' @
      identification_blocks ''Example Project'' None ''J. Doe, PE'' ''100000001'' @
      section_blocks ''Overall Project Understanding:'' [''Overall text.''] @
      section_blocks ''Lot Specific Project Understanding:'' [''Lot text.'']) =
     [''EXAMPLE PROJECT'', ''INDIVIDUAL PROJECT ORDER NUMBER 01'', [], [],
      ''Identification of Project:'', [], ''Project Name:'' @ tab @ ''Example Project'',
      ''KH Project Manager:'' @ tab @ ''J. Doe, PE'',
      ''Project Number:'' @ tab @ ''100000001'', [],
      ''Overall Project Understanding:'', [], ''Overall text.'', [],
      ''Lot Specific Project Understanding:'', [], ''Lot text.'', []]"
proof -
  have h: "set (keys example_selected_tasks) \<subseteq> set (keys TASK_DESCRIPTIONS)"
    unfolding keys_TASK_DESCRIPTIONS by (simp add: example_selected_tasks_def keys_def)
  have u: "ascii_upper ''Example Project'' = ''EXAMPLE PROJECT''"
    by code_simp
  have x: "list_all xml_compatible
     (input_texts ascii_upper example_project_info example_client_info
        example_selected_tasks)"
    by code_simp
  have t: "map (\<lambda>p. concat (map run_text (runs p)))
     (title_blocks ''EXAMPLE PROJECT'' ''01'' @
      identification_blocks ''Example Project'' None ''J. Doe, PE'' ''100000001'' @
      section_blocks ''Overall Project Understanding:'' [''Overall text.''] @
      section_blocks ''Lot Specific Project Understanding:'' [''Lot text.'']) =
     [''EXAMPLE PROJECT'', ''INDIVIDUAL PROJECT ORDER NUMBER 01'', [], [],
      ''Identification of Project:'', [], ''Project Name:'' @ tab @ ''Example Project'',
      ''KH Project Manager:'' @ tab @ ''J. Doe, PE'',
      ''Project Number:'' @ tab @ ''100000001'', [],
      ''Overall Project Understanding:'', [], ''Overall text.'', [],
      ''Lot Specific Project Understanding:'', [], ''Lot text.'', []]"
    by (simp add: title_blocks_def title_paragraph_def identification_blocks_def
        heading_paragraph_def label_line_def section_blocks_def body_paragraph_def
        empty_paragraph_def)
  show ?thesis
    using h x t C8_assembly_order [OF h x, of save_to_map "''/tmp/temp_ipo.docx''" Map.empty]
    by (simp add: assembled_document_def save_to_map_def u example_project_info_def
        example_client_info_def)
qed

text \<open>
  C10.  The claim that every run is set in Calibri fails on the code: in the paragraph of
  the second project-name line, the run that holds the tab has no font assigned, because
  the source overwrites its variable before the font assignments.  The evaluation below
  shows the two runs of that paragraph.
\<close>

theorem C10_tab_run_without_font:
  "map font_name
     (runs (body (add_project_identification Document ''Example Project'' (Some ''Lot A'')
                    ''J. Doe, PE'' ''100000001'') ! 3)) =
     [None, Some ''Calibri'']"
  by (simp add: add_project_identification_def Let_def add_paragraph_def Document_def
      add_run_def add_tab_stop_def new_run_def empty_paragraph_def)

end
